theory Spec2Isabelle
  imports Main "HOL-Library.AList"
begin

section \<open>The rendezvous server: stun\_server.py\<close>

text \<open>
  Time is an integer number of seconds; every call of \<^verbatim>\<open>datetime.now()\<close> inside one
  request is the parameter \<open>now\<close> of the request. A timestamp written with
  \<^verbatim>\<open>isoformat()\<close> and read back with \<^verbatim>\<open>fromisoformat\<close> is the same integer.

  The dictionary \<^verbatim>\<open>peer_info\<close> of \<^verbatim>\<open>register_peer\<close> has six fixed keys and is a record.
  Usernames and addresses are strings and ports are integers, the types that
  \<^verbatim>\<open>register_with_stun\<close> of peer.py sends.
\<close>

record peer_info =
  username :: string
  ip_address :: string
  port :: int
  status :: string
  last_seen :: int
  registered_at :: int

subsection \<open>The Redis commands the server uses\<close>

text \<open>
  A Redis database as far as the server uses it: hashes under string keys, each with
  an optional expiry deadline, and the one set \<^verbatim>\<open>online_peers\<close>. Every hash the server
  writes holds the six fields of \<open>peer_info\<close>. A key whose deadline has passed does not
  exist for any command (Redis: a key is expired when the clock is greater than its
  deadline).
\<close>

record redis =
  hashes :: "(string \<times> peer_info \<times> int option) list"
  online_peers :: "string list"

definition hgetall :: "int \<Rightarrow> redis \<Rightarrow> string \<Rightarrow> peer_info option" where
  "hgetall now r key =
     (case map_of (hashes r) key of
        None \<Rightarrow> None
      | Some (h, None) \<Rightarrow> Some h
      | Some (h, Some deadline) \<Rightarrow> if now \<le> deadline then Some h else None)"

definition exists_key :: "int \<Rightarrow> redis \<Rightarrow> string \<Rightarrow> bool" where
  "exists_key now r key = (hgetall now r key \<noteq> None)"

text \<open>\<^verbatim>\<open>hset(key, mapping=peer_info)\<close>: all six fields are written. A live key keeps its
  deadline; an absent or expired key becomes a new hash with no deadline.\<close>

definition hset_mapping :: "int \<Rightarrow> string \<Rightarrow> peer_info \<Rightarrow> redis \<Rightarrow> redis" where
  "hset_mapping now key info r =
     (if exists_key now r key
      then r\<lparr>hashes := AList.map_entry key (\<lambda>(h, d). (info, d)) (hashes r)\<rparr>
      else r\<lparr>hashes := AList.update key (info, None) (hashes r)\<rparr>)"

text \<open>\<^verbatim>\<open>hset(key, field, value)\<close> on a key that exists (the server calls it only under
  \<^verbatim>\<open>exists(key)\<close>): one field is rewritten, the deadline stays.\<close>

definition hset_field :: "string \<Rightarrow> (peer_info \<Rightarrow> peer_info) \<Rightarrow> redis \<Rightarrow> redis" where
  "hset_field key upd r = r\<lparr>hashes := AList.map_entry key (\<lambda>(h, d). (upd h, d)) (hashes r)\<rparr>"

definition expire :: "int \<Rightarrow> string \<Rightarrow> int \<Rightarrow> redis \<Rightarrow> redis" where
  "expire now key seconds r =
     (if exists_key now r key
      then r\<lparr>hashes := AList.map_entry key (\<lambda>(h, d). (h, Some (now + seconds))) (hashes r)\<rparr>
      else r)"

definition sadd :: "string \<Rightarrow> redis \<Rightarrow> redis" where
  "sadd member r = r\<lparr>online_peers := List.insert member (online_peers r)\<rparr>"

definition srem :: "string \<Rightarrow> redis \<Rightarrow> redis" where
  "srem member r = r\<lparr>online_peers := removeAll member (online_peers r)\<rparr>"

definition smembers :: "redis \<Rightarrow> string list" where
  "smembers r = online_peers r"

subsection \<open>class STUNServer\<close>

text \<open>\<^verbatim>\<open>self.redis_client\<close> is either a client or \<^verbatim>\<open>None\<close>; in the second case the
  dictionary \<^verbatim>\<open>self.peers\<close> holds the records, in insertion order.\<close>

datatype stun_server =
  Redis_client redis
| In_memory "(string \<times> peer_info) list"

definition peer_key :: "string \<Rightarrow> string" where
  "peer_key u = ''peer:'' @ u"

definition register_peer ::
  "int \<Rightarrow> stun_server \<Rightarrow> string \<Rightarrow> string \<Rightarrow> int \<Rightarrow> stun_server \<times> peer_info" where
  "register_peer now srv u ip p =
     (let info = \<lparr>username = u, ip_address = ip, port = p, status = ''online'',
                  last_seen = now, registered_at = now\<rparr>
      in case srv of
           Redis_client r \<Rightarrow>
             (let key = peer_key u;
                  r1 = hset_mapping now key info r;
                  r2 = expire now key 3600 r1;
                  r3 = sadd u r2
              in (Redis_client r3, info))
         | In_memory peers \<Rightarrow> (In_memory (AList.update u info peers), info))"

definition get_all_peers :: "int \<Rightarrow> stun_server \<Rightarrow> peer_info list" where
  "get_all_peers now srv =
     (case srv of
        Redis_client r \<Rightarrow> List.map_filter (\<lambda>u. hgetall now r (peer_key u)) (smembers r)
      | In_memory peers \<Rightarrow> map snd peers)"

definition get_peer_info :: "int \<Rightarrow> stun_server \<Rightarrow> string \<Rightarrow> peer_info option" where
  "get_peer_info now srv u =
     (case srv of
        Redis_client r \<Rightarrow> hgetall now r (peer_key u)
      | In_memory peers \<Rightarrow> map_of peers u)"

text \<open>\<^verbatim>\<open>update_peer_status\<close> has a Redis branch only: with \<^verbatim>\<open>self.redis_client\<close> equal to
  \<^verbatim>\<open>None\<close> the method does nothing.\<close>

definition update_peer_status :: "int \<Rightarrow> stun_server \<Rightarrow> string \<Rightarrow> string \<Rightarrow> stun_server" where
  "update_peer_status now srv u st =
     (case srv of
        Redis_client r \<Rightarrow>
          (let key = peer_key u in
           if exists_key now r key
           then (let r1 = hset_field key (\<lambda>h. h\<lparr>status := st\<rparr>) r;
                     r2 = hset_field key (\<lambda>h. h\<lparr>last_seen := now\<rparr>) r1
                 in Redis_client (if st = ''online'' then sadd u r2 else srem u r2))
           else Redis_client r)
      | In_memory peers \<Rightarrow> In_memory peers)"

text \<open>One pass of the loop of \<^verbatim>\<open>cleanup_old_peers\<close>, run at time \<open>now\<close> (the thread
  runs a pass every 300 seconds). \<^verbatim>\<open>timedelta(minutes=30)\<close> is 1800 seconds.\<close>

definition cleanup_old_peers :: "int \<Rightarrow> stun_server \<Rightarrow> stun_server" where
  "cleanup_old_peers now srv =
     (case srv of
        Redis_client r \<Rightarrow> Redis_client r
      | In_memory peers \<Rightarrow>
          (let to_remove = map fst (filter (\<lambda>(u, peer). now - last_seen peer > 1800) peers)
           in In_memory (fold AList.delete to_remove peers)))"

subsection \<open>The HTTP endpoints\<close>

text \<open>
  The result of \<^verbatim>\<open>request.get_json()\<close>: it raises (no JSON content type, or a body that
  is not JSON), or returns \<^verbatim>\<open>None\<close> (the body \<^verbatim>\<open>null\<close>, or no body under a Flask that
  is silent about it), or returns a dictionary. Of a dictionary the endpoints read the
  three keys below; a key that is absent is \<open>None\<close>.
\<close>

record json_body =
  f_username :: "string option"
  f_ip_address :: "string option"
  f_port :: "int option"

datatype get_json = Raises | Returns_None | Returns_dict json_body

text \<open>The JSON payload of a response. \<open>Failed\<close> is the payload of an
  \<^verbatim>\<open>except Exception\<close> handler; its string is the message without the exception's text.\<close>

datatype payload =
  Error string
| Failed string
| Message string
| Peer_message string peer_info
| Peer_record peer_info
| Peers nat "peer_info list"

type_synonym response = "payload \<times> nat"

definition register :: "int \<Rightarrow> stun_server \<Rightarrow> get_json \<Rightarrow> stun_server \<times> response" where
  "register now srv req =
     (case req of
        Raises \<Rightarrow> (srv, (Failed ''Registration failed'', 500))
      | Returns_None \<Rightarrow> (srv, (Failed ''Registration failed'', 500))
      | Returns_dict data \<Rightarrow>
          (case f_username data of
             None \<Rightarrow> (srv, (Error ''Missing required field: username'', 400))
           | Some u \<Rightarrow>
          (case f_ip_address data of
             None \<Rightarrow> (srv, (Error ''Missing required field: ip_address'', 400))
           | Some ip \<Rightarrow>
          (case f_port data of
             None \<Rightarrow> (srv, (Error ''Missing required field: port'', 400))
           | Some p \<Rightarrow>
          (case get_peer_info now srv u of
             Some existing_peer \<Rightarrow>
               (update_peer_status now srv u ''online'',
                (Peer_message ''Peer updated successfully'' existing_peer, 200))
           | None \<Rightarrow>
               (let (srv', info) = register_peer now srv u ip p
                in (srv', (Peer_message ''Peer registered successfully'' info, 201))))))))"

definition get_peers :: "int \<Rightarrow> stun_server \<Rightarrow> response" where
  "get_peers now srv =
     (let peers = get_all_peers now srv;
          online = filter (\<lambda>peer. status peer = ''online'') peers
      in (Peers (length online) online, 200))"

text \<open>\<^verbatim>\<open>/peerinfo\<close>: the argument is \<^verbatim>\<open>request.args.get('username')\<close>.\<close>

definition get_peer_info_endpoint :: "int \<Rightarrow> stun_server \<Rightarrow> string option \<Rightarrow> response" where
  "get_peer_info_endpoint now srv arg =
     (case arg of
        None \<Rightarrow> (Error ''Username parameter is required'', 400)
      | Some u \<Rightarrow>
          if u = [] then (Error ''Username parameter is required'', 400)
          else (case get_peer_info now srv u of
                  None \<Rightarrow> (Error (''Peer '' @ u @ '' not found''), 404)
                | Some info \<Rightarrow> (Peer_record info, 200)))"

definition heartbeat :: "int \<Rightarrow> stun_server \<Rightarrow> get_json \<Rightarrow> stun_server \<times> response" where
  "heartbeat now srv req =
     (case req of
        Raises \<Rightarrow> (srv, (Failed ''Heartbeat failed'', 500))
      | Returns_None \<Rightarrow> (srv, (Failed ''Heartbeat failed'', 500))
      | Returns_dict data \<Rightarrow>
          (case f_username data of
             None \<Rightarrow> (srv, (Error ''Username is required'', 400))
           | Some u \<Rightarrow>
               if u = [] then (srv, (Error ''Username is required'', 400))
               else (update_peer_status now srv u ''online'', (Message ''Heartbeat received'', 200))))"

definition unregister :: "int \<Rightarrow> stun_server \<Rightarrow> get_json \<Rightarrow> stun_server \<times> response" where
  "unregister now srv req =
     (case req of
        Raises \<Rightarrow> (srv, (Failed ''Unregistration failed'', 500))
      | Returns_None \<Rightarrow> (srv, (Failed ''Unregistration failed'', 500))
      | Returns_dict data \<Rightarrow>
          (case f_username data of
             None \<Rightarrow> (srv, (Error ''Username is required'', 400))
           | Some u \<Rightarrow>
               if u = [] then (srv, (Error ''Username is required'', 400))
               else (update_peer_status now srv u ''offline'',
                     (Message (''Peer '' @ u @ '' unregistered successfully''), 200))))"

section \<open>The peer: peer.py\<close>

text \<open>
  A socket is a number. Of class \<^verbatim>\<open>Peer\<close> the record keeps the fields the connection
  code reads and writes: the username, the dictionary \<^verbatim>\<open>connections\<close> (username to
  socket, in insertion order) and \<^verbatim>\<open>is_running\<close>. \<open>closed\<close> logs every call of
  \<^verbatim>\<open>close()\<close> on a connection socket, in order, and \<open>shown\<close> the chat messages printed.
\<close>

type_synonym socket = nat

record peer =
  my_username :: string
  connections :: "(string \<times> socket) list"
  is_running :: bool
  closed :: "socket list"
  shown :: "(int \<times> string \<times> string) list"

text \<open>
  A decoded JSON object of the peer protocol, by its \<^verbatim>\<open>type\<close> field. The fields are
  those the senders in peer.py write: a \<^verbatim>\<open>connect_request\<close> has \<^verbatim>\<open>username\<close> and
  \<^verbatim>\<open>timestamp\<close>, the two answers have \<^verbatim>\<open>from\<close>, a \<^verbatim>\<open>message\<close> has \<^verbatim>\<open>from\<close>,
  \<^verbatim>\<open>content\<close> and \<^verbatim>\<open>timestamp\<close>, a \<^verbatim>\<open>disconnect\<close> has \<^verbatim>\<open>from\<close> and
  \<^verbatim>\<open>timestamp\<close>. \<open>Other_type\<close> is an object with any other \<^verbatim>\<open>type\<close>.
\<close>

datatype wire =
  Connect_request string int
| Connection_accepted string
| Connection_rejected string
| Chat_message string string int
| Disconnect string int
| Other_type

text \<open>What \<^verbatim>\<open>recv(1024)\<close> followed by \<^verbatim>\<open>json.loads\<close> yields.\<close>

datatype recv =
  Recv_empty
| Recv_json wire
| Recv_undecodable
| Recv_reset
| Recv_timeout
| Recv_error

text \<open>\<^verbatim>\<open>input()\<close>: a line, or an exception.\<close>

datatype console = Line string | Input_raises

definition lower_char :: "char \<Rightarrow> char" where
  "lower_char c =
     (case map_of (zip ''ABCDEFGHIJKLMNOPQRSTUVWXYZ'' ''abcdefghijklmnopqrstuvwxyz'') c of
        None \<Rightarrow> c
      | Some l \<Rightarrow> l)"

definition lower :: "string \<Rightarrow> string" where
  "lower s = map lower_char s"

definition in_connections :: "string \<Rightarrow> peer \<Rightarrow> bool" where
  "in_connections u p = (map_of (connections p) u \<noteq> None)"

definition close_socket :: "socket \<Rightarrow> peer \<Rightarrow> peer" where
  "close_socket s p = p\<lparr>closed := closed p @ [s]\<rparr>"

definition Peer :: "string \<Rightarrow> peer" where
  "Peer u = \<lparr>my_username = u, connections = [], is_running = False, closed = [], shown = []\<rparr>"

definition start_tcp_server :: "peer \<Rightarrow> peer" where
  "start_tcp_server p = p\<lparr>is_running := True\<rparr>"

text \<open>
  \<^verbatim>\<open>handle_incoming_connection\<close> up to the call of \<^verbatim>\<open>chat_with_peer\<close>: \<open>data\<close> is the
  first read of the socket, \<open>answer\<close> the line typed at the prompt, \<open>send_ok\<close> whether
  \<^verbatim>\<open>send\<close> returns. The second component is the message sent on the socket, if any.
\<close>

definition handle_incoming_connection ::
  "peer \<Rightarrow> socket \<Rightarrow> recv \<Rightarrow> console \<Rightarrow> bool \<Rightarrow> peer \<times> wire option" where
  "handle_incoming_connection p client_socket data answer send_ok =
     (case data of
        Recv_empty \<Rightarrow> (p, None)
      | Recv_json (Connect_request from_username ts) \<Rightarrow>
          (case answer of
             Input_raises \<Rightarrow> (close_socket client_socket p, None)
           | Line response \<Rightarrow>
               if lower response = ''y''
               then (if send_ok
                     then (p\<lparr>connections := AList.update from_username client_socket (connections p)\<rparr>,
                           Some (Connection_accepted (my_username p)))
                     else (close_socket client_socket p, None))
               else (if send_ok
                     then (close_socket client_socket p, Some (Connection_rejected (my_username p)))
                     else (close_socket client_socket p, None)))
      | Recv_json _ \<Rightarrow> (p, None)
      | _ \<Rightarrow> (close_socket client_socket p, None))"

text \<open>
  \<^verbatim>\<open>connect_to_peer\<close> up to the call of \<^verbatim>\<open>chat_with_peer\<close>. \<open>peer_info\<close> is the result
  of \<^verbatim>\<open>self.get_peer_info(target_username)\<close>, \<open>peer_socket\<close> the new socket, and \<open>io\<close>
  what connecting, sending the request and reading the answer come to.
\<close>

datatype dial_io =
  Connect_timeout
| Connect_refused
| Dial_error
| Response wire

definition connect_request :: "peer \<Rightarrow> int \<Rightarrow> wire" where
  "connect_request p now = Connect_request (my_username p) now"

definition connect_to_peer ::
  "peer \<Rightarrow> string \<Rightarrow> peer_info option \<Rightarrow> socket \<Rightarrow> dial_io \<Rightarrow> peer \<times> bool" where
  "connect_to_peer p target_username peer_info peer_socket io =
     (case peer_info of
        None \<Rightarrow> (p, False)
      | Some info \<Rightarrow>
          if in_connections target_username p then (p, True)
          else (case io of
                  Connect_timeout \<Rightarrow> (close_socket peer_socket p, False)
                | Connect_refused \<Rightarrow> (p, False)
                | Dial_error \<Rightarrow> (p, False)
                | Response (Connection_accepted _) \<Rightarrow>
                    (p\<lparr>connections := AList.update target_username peer_socket (connections p)\<rparr>,
                     True)
                | Response _ \<Rightarrow> (close_socket peer_socket p, False)))"

text \<open>The clean-up at the end of \<^verbatim>\<open>receive_messages\<close>, and the same two statements in the
  \<^verbatim>\<open>/exit\<close> branch of \<^verbatim>\<open>send_messages\<close>.\<close>

definition clean_up :: "string \<Rightarrow> socket \<Rightarrow> peer \<Rightarrow> peer" where
  "clean_up peer_username peer_socket p =
     close_socket peer_socket
       (if in_connections peer_username p
        then p\<lparr>connections := AList.delete peer_username (connections p)\<rparr>
        else p)"

text \<open>
  The inbound flow \<^verbatim>\<open>receive_messages\<close> over the reads of the socket that are still to
  come. The result is the peer and whether the flow has ended; with no read left and
  the loop condition true the flow waits in \<^verbatim>\<open>recv\<close>.
\<close>

fun receive_messages :: "string \<Rightarrow> socket \<Rightarrow> recv list \<Rightarrow> peer \<Rightarrow> peer \<times> bool" where
  "receive_messages u s [] p =
     (if is_running p \<and> in_connections u p then (p, False) else (clean_up u s p, True))"
| "receive_messages u s (data # rest) p =
     (if is_running p \<and> in_connections u p
      then (case data of
              Recv_json (Chat_message sender content ts) \<Rightarrow>
                receive_messages u s rest (p\<lparr>shown := shown p @ [(ts, sender, content)]\<rparr>)
            | Recv_json (Disconnect sender ts) \<Rightarrow> (clean_up u s p, True)
            | Recv_json _ \<Rightarrow> receive_messages u s rest p
            | _ \<Rightarrow> (clean_up u s p, True))
      else (clean_up u s p, True))"

text \<open>
  The outbound flow \<^verbatim>\<open>send_messages\<close> over the turns at the console that are still to
  come: each is what \<^verbatim>\<open>input()\<close> yields, the time, and whether \<^verbatim>\<open>send\<close> returns. The
  result is the peer, the messages sent, and whether the flow has ended.
\<close>

fun send_messages ::
  "string \<Rightarrow> socket \<Rightarrow> (console \<times> int \<times> bool) list \<Rightarrow> peer \<Rightarrow> peer \<times> wire list \<times> bool" where
  "send_messages u s [] p =
     (if is_running p \<and> in_connections u p then (p, [], False) else (p, [], True))"
| "send_messages u s ((inp, now, send_ok) # rest) p =
     (if is_running p \<and> in_connections u p
      then (case inp of
              Input_raises \<Rightarrow> (p, [], True)
            | Line message \<Rightarrow>
                if lower message = ''/exit''
                then (if send_ok
                      then (clean_up u s p, [Disconnect (my_username p) now], True)
                      else (p, [], True))
                else (if send_ok
                      then (let (p', out, ended) = send_messages u s rest p
                            in (p', Chat_message (my_username p) message now # out, ended))
                      else (p, [], True)))
      else (p, [], True))"

text \<open>\<^verbatim>\<open>Peer.unregister\<close>, as far as it touches the connections.\<close>

definition peer_unregister :: "peer \<Rightarrow> peer" where
  "peer_unregister p =
     p\<lparr>is_running := False, closed := closed p @ map snd (connections p), connections := []\<rparr>"

subsection \<open>Runs of one peer, and the handshake between two\<close>

text \<open>Everything that touches \<^verbatim>\<open>connections\<close>, as one event each.\<close>

datatype event =
  Dial string "peer_info option" socket dial_io
| Incoming socket recv console bool
| Inbound string socket "recv list"
| Outbound string socket "(console \<times> int \<times> bool) list"
| Shutdown

fun step :: "peer \<Rightarrow> event \<Rightarrow> peer" where
  "step p (Dial target info s io) = fst (connect_to_peer p target info s io)"
| "step p (Incoming s data answer send_ok) = fst (handle_incoming_connection p s data answer send_ok)"
| "step p (Inbound u s reads) = fst (receive_messages u s reads p)"
| "step p (Outbound u s turns) = fst (send_messages u s turns p)"
| "step p Shutdown = peer_unregister p"

definition run :: "peer \<Rightarrow> event list \<Rightarrow> peer" where
  "run p evs = foldl step p evs"

definition session_count :: "peer \<Rightarrow> string \<Rightarrow> nat" where
  "session_count p u = length (filter (\<lambda>(k, s). k = u) (connections p))"

text \<open>
  One handshake: the initiator dials \<open>target\<close>, which the registry resolved to \<open>info\<close>;
  the responder reads the request on \<open>s_r\<close> and answers the prompt with \<open>response\<close>; the
  initiator reads the answer on \<open>s_i\<close>. Every \<^verbatim>\<open>send\<close> returns.
\<close>

definition handshake ::
  "peer \<Rightarrow> peer \<Rightarrow> string \<Rightarrow> peer_info \<Rightarrow> socket \<Rightarrow> socket \<Rightarrow> int \<Rightarrow> string
     \<Rightarrow> peer \<times> peer \<times> bool" where
  "handshake initiator responder target info s_i s_r now response =
     (let (responder', reply) =
            handle_incoming_connection responder s_r
              (Recv_json (connect_request initiator now)) (Line response) True;
          (initiator', ok) =
            connect_to_peer initiator target (Some info) s_i
              (case reply of None \<Rightarrow> Dial_error | Some msg \<Rightarrow> Response msg)
      in (initiator', responder', ok))"

subsection \<open>Runs of the server\<close>

text \<open>A request to the registry at a time, and the server after a list of them.\<close>

datatype request =
  Register int get_json
| Heartbeat int get_json
| Unregister int get_json
| Cleanup int

fun serve :: "stun_server \<Rightarrow> request \<Rightarrow> stun_server" where
  "serve srv (Register now req) = fst (register now srv req)"
| "serve srv (Heartbeat now req) = fst (heartbeat now srv req)"
| "serve srv (Unregister now req) = fst (unregister now srv req)"
| "serve srv (Cleanup now) = cleanup_old_peers now srv"

definition serve_all :: "stun_server \<Rightarrow> request list \<Rightarrow> stun_server" where
  "serve_all srv reqs = foldl serve srv reqs"

definition body :: "string \<Rightarrow> string \<Rightarrow> int \<Rightarrow> get_json" where
  "body u ip p = Returns_dict \<lparr>f_username = Some u, f_ip_address = Some ip, f_port = Some p\<rparr>"

definition username_only :: "string \<Rightarrow> get_json" where
  "username_only u = Returns_dict \<lparr>f_username = Some u, f_ip_address = None, f_port = None\<rparr>"

definition empty_redis :: stun_server where
  "empty_redis = Redis_client \<lparr>hashes = [], online_peers = []\<rparr>"

definition empty_memory :: stun_server where
  "empty_memory = In_memory []"

text \<open>The list of peers in a response of \<^verbatim>\<open>/peers\<close>.\<close>

definition listed :: "response \<Rightarrow> peer_info list" where
  "listed resp = (case fst resp of Peers n ps \<Rightarrow> ps | _ \<Rightarrow> [])"

text \<open>An invariant of the Redis store: every hash has the deadline that \<^verbatim>\<open>register_peer\<close>
  gave it, 3600 seconds after the time in \<^verbatim>\<open>registered_at\<close>.\<close>

definition redis_deadlines :: "stun_server \<Rightarrow> bool" where
  "redis_deadlines srv =
     (case srv of
        Redis_client r \<Rightarrow>
          (\<forall>k h d. map_of (hashes r) k = Some (h, d) \<longrightarrow> d = Some (registered_at h + 3600))
      | In_memory peers \<Rightarrow> False)"

section \<open>The registry: lemmas about the Redis commands and the methods\<close>

lemmas server_defs =
  serve_all_def empty_redis_def empty_memory_def body_def username_only_def register_def
  heartbeat_def unregister_def get_peers_def get_all_peers_def get_peer_info_def
  register_peer_def update_peer_status_def cleanup_old_peers_def hgetall_def exists_key_def
  hset_mapping_def hset_field_def expire_def sadd_def srem_def smembers_def peer_key_def
  listed_def Let_def List.map_filter_def

lemma peer_key_inj [simp]: "(peer_key u = peer_key v) = (u = v)"
  by (simp add: peer_key_def)

lemma hgetall_hset_field:
  "hgetall T (hset_field key upd r) k =
     (if k = key then map_option upd (hgetall T r k) else hgetall T r k)"
  by (auto simp: hgetall_def hset_field_def map_of_map_entry split: option.splits)

lemma hgetall_sadd [simp]: "hgetall T (sadd u r) k = hgetall T r k"
  by (simp add: hgetall_def sadd_def)

lemma hgetall_srem [simp]: "hgetall T (srem u r) k = hgetall T r k"
  by (simp add: hgetall_def srem_def)

lemma hgetall_hset_mapping_other:
  "k \<noteq> key \<Longrightarrow> hgetall T (hset_mapping now key info r) k = hgetall T r k"
  by (simp add: hgetall_def hset_mapping_def map_of_map_entry update_conv')

lemma hgetall_expire_other:
  "k \<noteq> key \<Longrightarrow> hgetall T (expire now key secs r) k = hgetall T r k"
  by (simp add: hgetall_def expire_def map_of_map_entry)

lemma hgetall_Some:
  "hgetall t r k = Some h \<Longrightarrow>
     map_of (hashes r) k = Some (h, None) \<or> (\<exists>d. map_of (hashes r) k = Some (h, Some d) \<and> t \<le> d)"
  by (auto simp: hgetall_def split: option.splits if_splits)

text \<open>What a lookup at time \<open>T\<close> sees after \<^verbatim>\<open>update_peer_status\<close> at time \<open>now\<close>.\<close>

lemma get_peer_info_update_peer_status:
  "get_peer_info T (update_peer_status now srv u st) v =
     (case srv of
        Redis_client r \<Rightarrow>
          if v = u \<and> exists_key now r (peer_key u)
          then map_option (\<lambda>h. h\<lparr>status := st, last_seen := now\<rparr>) (get_peer_info T srv v)
          else get_peer_info T srv v
      | In_memory peers \<Rightarrow> get_peer_info T srv v)"
  by (cases srv)
    (simp_all add: get_peer_info_def update_peer_status_def Let_def hgetall_hset_field
      option.map_comp comp_def)

text \<open>A record that exists at a time exists at every earlier time.\<close>

lemma get_peer_info_mono:
  "get_peer_info T srv u = Some r \<Longrightarrow> t \<le> T \<Longrightarrow> get_peer_info t srv u = Some r"
  by (cases srv) (auto simp: get_peer_info_def hgetall_def split: option.splits if_splits)

lemma get_peer_info_register_peer_other:
  "v \<noteq> u \<Longrightarrow> get_peer_info T (fst (register_peer now srv v ip p)) u = get_peer_info T srv u"
  by (cases srv)
    (simp_all add: register_peer_def get_peer_info_def Let_def hgetall_expire_other
      hgetall_hset_mapping_other update_conv')

lemma register_existing_eq:
  "get_peer_info now srv u = Some e \<Longrightarrow>
   register now srv (body u ip p) =
     (update_peer_status now srv u ''online'', Peer_message ''Peer updated successfully'' e, 200)"
  by (simp add: register_def body_def)

lemma exists_key_get_peer_info:
  "exists_key now r (peer_key u) = (get_peer_info now (Redis_client r) u \<noteq> None)"
  by (simp add: exists_key_def get_peer_info_def)

text \<open>No request rewrites the username, the address or \<^verbatim>\<open>registered_at\<close> of a record
  that exists.\<close>

lemma update_peer_status_keeps:
  assumes "get_peer_info T srv u = Some r" and "t \<le> T"
  shows "\<exists>r'. get_peer_info T (update_peer_status t srv v st) u = Some r'
           \<and> username r' = username r \<and> ip_address r' = ip_address r \<and> port r' = port r
           \<and> registered_at r' = registered_at r"
  using assms by (cases srv) (auto simp: get_peer_info_update_peer_status)

lemma register_keeps:
  assumes "get_peer_info T srv u = Some r" and "t \<le> T"
  shows "\<exists>r'. get_peer_info T (fst (register t srv req)) u = Some r'
           \<and> username r' = username r \<and> ip_address r' = ip_address r \<and> port r' = port r
           \<and> registered_at r' = registered_at r"
proof (cases req)
  case Raises
  with assms show ?thesis by (simp add: register_def)
next
  case Returns_None
  with assms show ?thesis by (simp add: register_def)
next
  case (Returns_dict data)
  show ?thesis
  proof (cases "f_username data")
    case None
    with Returns_dict assms show ?thesis by (simp add: register_def)
  next
    case (Some v)
    note v = this
    show ?thesis
    proof (cases "f_ip_address data")
      case None
      with Returns_dict v assms show ?thesis by (simp add: register_def)
    next
      case (Some ip)
      note ip = this
      show ?thesis
      proof (cases "f_port data")
        case None
        with Returns_dict v ip assms show ?thesis by (simp add: register_def)
      next
        case (Some p)
        note p = this
        show ?thesis
        proof (cases "get_peer_info t srv v")
          case (Some e)
          then have "fst (register t srv req) = update_peer_status t srv v ''online''"
            using Returns_dict v ip p by (simp add: register_def)
          then show ?thesis using update_peer_status_keeps [OF assms] by simp
        next
          case None
          then have eq: "fst (register t srv req) = fst (register_peer t srv v ip p)"
            using Returns_dict v ip p by (simp add: register_def split: prod.splits)
          have "v \<noteq> u" using None get_peer_info_mono [OF assms] by auto
          then show ?thesis using eq assms by (simp add: get_peer_info_register_peer_other)
        qed
      qed
    qed
  qed
qed

lemma heartbeat_keeps:
  assumes "get_peer_info T srv u = Some r" and "t \<le> T"
  shows "\<exists>r'. get_peer_info T (fst (heartbeat t srv req)) u = Some r'
           \<and> username r' = username r \<and> ip_address r' = ip_address r \<and> port r' = port r
           \<and> registered_at r' = registered_at r"
  using update_peer_status_keeps [OF assms] assms
  by (auto simp: heartbeat_def split: get_json.splits option.splits)

lemma unregister_keeps:
  assumes "get_peer_info T srv u = Some r" and "t \<le> T"
  shows "\<exists>r'. get_peer_info T (fst (unregister t srv req)) u = Some r'
           \<and> username r' = username r \<and> ip_address r' = ip_address r \<and> port r' = port r
           \<and> registered_at r' = registered_at r"
  using update_peer_status_keeps [OF assms] assms
  by (auto simp: unregister_def split: get_json.splits option.splits)

lemma register_all_keeps:
  assumes "get_peer_info T srv u = Some r" and "\<forall>c \<in> set calls. fst c \<le> T"
  shows "\<exists>r'. get_peer_info T
                 (serve_all srv (map (\<lambda>(t, ip, p). Register t (body u ip p)) calls)) u = Some r'
           \<and> ip_address r' = ip_address r \<and> port r' = port r"
  using assms
proof (induction calls arbitrary: srv r)
  case Nil
  then show ?case by (simp add: serve_all_def)
next
  case (Cons c calls)
  obtain t ip p where c: "c = (t, ip, p)" by (cases c)
  from Cons.prems c have t: "t \<le> T" by simp
  from register_keeps [OF Cons.prems(1) t, of "body u ip p"]
  obtain r1 where r1: "get_peer_info T (fst (register t srv (body u ip p))) u = Some r1"
    "ip_address r1 = ip_address r" "port r1 = port r" by blast
  from Cons.IH [OF r1(1)] Cons.prems(2)
  obtain r' where "get_peer_info T
      (serve_all (fst (register t srv (body u ip p)))
         (map (\<lambda>(t, ip, p). Register t (body u ip p)) calls)) u = Some r'"
      "ip_address r' = ip_address r1" "port r' = port r1" by auto
  then show ?case using r1 c by (simp add: serve_all_def)
qed

subsection \<open>Re-registration\<close>

text \<open>
  Claim C1, as the code has it. A call of \<^verbatim>\<open>register\<close> for a username whose record
  exists succeeds with status 200 and returns the record as it was looked up before the
  refresh. The stored record keeps its address: the address of the call is not written.
  With the Redis store the stored record afterwards is the old one with status
  \<^verbatim>\<open>online\<close> and \<^verbatim>\<open>last_seen\<close> equal to the time of the call. After any list of
  registrations of the username, made while the record exists, a lookup still gives the
  address the record had.
\<close>

theorem register_existing_record:
  assumes "get_peer_info now srv u = Some existing"
  shows "(\<exists>srv' r'. register now srv (body u ip p) =
                      (srv', Peer_message ''Peer updated successfully'' existing, 200)
            \<and> get_peer_info now srv' u = Some r'
            \<and> ip_address r' = ip_address existing \<and> port r' = port existing
            \<and> (case srv of
                 Redis_client r \<Rightarrow> r' = existing\<lparr>status := ''online'', last_seen := now\<rparr>
               | In_memory peers \<Rightarrow> True))
       \<and> ((\<forall>c \<in> set calls. fst c \<le> now) \<longrightarrow>
            (\<exists>r'. get_peer_info now
                     (serve_all srv (map (\<lambda>(t, ip, p). Register t (body u ip p)) calls)) u = Some r'
               \<and> ip_address r' = ip_address existing \<and> port r' = port existing))"
proof (intro conjI impI)
  have eq: "register now srv (body u ip p) =
      (update_peer_status now srv u ''online'', Peer_message ''Peer updated successfully'' existing, 200)"
    by (rule register_existing_eq [OF assms])
  show "\<exists>srv' r'. register now srv (body u ip p) =
                      (srv', Peer_message ''Peer updated successfully'' existing, 200)
            \<and> get_peer_info now srv' u = Some r'
            \<and> ip_address r' = ip_address existing \<and> port r' = port existing
            \<and> (case srv of
                 Redis_client r \<Rightarrow> r' = existing\<lparr>status := ''online'', last_seen := now\<rparr>
               | In_memory peers \<Rightarrow> True)"
    unfolding eq using assms
    by (cases srv) (auto simp: get_peer_info_update_peer_status exists_key_get_peer_info)
next
  assume "\<forall>c \<in> set calls. fst c \<le> now"
  then show "\<exists>r'. get_peer_info now
                     (serve_all srv (map (\<lambda>(t, ip, p). Register t (body u ip p)) calls)) u = Some r'
               \<and> ip_address r' = ip_address existing \<and> port r' = port existing"
    by (rule register_all_keeps [OF assms])
qed

text \<open>
  The theorem of claim C1 at a record of alice in the Redis store: registered at time 0
  from 10.0.0.1:9000, registered again at time 10 from 10.0.0.2:9001, and twice more
  from other addresses.
\<close>

theorem register_existing_record_witness:
  "get_peer_info 10 (serve_all empty_redis [Register 0 (body ''alice'' ''10.0.0.1'' 9000)]) ''alice'' =
     Some \<lparr>username = ''alice'', ip_address = ''10.0.0.1'', port = 9000, status = ''online'',
           last_seen = 0, registered_at = 0\<rparr>
   \<and> (\<exists>srv' r'.
         register 10 (serve_all empty_redis [Register 0 (body ''alice'' ''10.0.0.1'' 9000)])
           (body ''alice'' ''10.0.0.2'' 9001) =
           (srv', Peer_message ''Peer updated successfully''
              \<lparr>username = ''alice'', ip_address = ''10.0.0.1'', port = 9000, status = ''online'',
                 last_seen = 0, registered_at = 0\<rparr>, 200)
       \<and> get_peer_info 10 srv' ''alice'' = Some r'
       \<and> ip_address r' = ''10.0.0.1'' \<and> port r' = 9000
       \<and> status r' = ''online'' \<and> last_seen r' = 10)
   \<and> (\<exists>r'. get_peer_info 10
         (serve_all (serve_all empty_redis [Register 0 (body ''alice'' ''10.0.0.1'' 9000)])
            (map (\<lambda>(t, ip, p). Register t (body ''alice'' ip p))
               [(5, ''10.0.0.2'', 9001), (7, ''10.0.0.3'', 9002)])) ''alice'' = Some r'
       \<and> ip_address r' = ''10.0.0.1'' \<and> port r' = 9000)"
proof -
  have h: "get_peer_info 10 (serve_all empty_redis [Register 0 (body ''alice'' ''10.0.0.1'' 9000)])
      ''alice'' =
     Some \<lparr>username = ''alice'', ip_address = ''10.0.0.1'', port = 9000, status = ''online'',
           last_seen = 0, registered_at = 0\<rparr>"
    by (simp add: server_defs)
  have r: "\<exists>r. serve_all empty_redis [Register 0 (body ''alice'' ''10.0.0.1'' 9000)] = Redis_client r"
    by (simp add: server_defs)
  have c: "\<forall>c \<in> set [(5::int, ''10.0.0.2'', 9001::int), (7, ''10.0.0.3'', 9002)]. fst c \<le> 10"
    by simp
  from register_existing_record [OF h, where ip = "''10.0.0.2''" and p = 9001
      and calls = "[(5, ''10.0.0.2'', 9001), (7, ''10.0.0.3'', 9002)]"] c r h
  show ?thesis by auto
qed

text \<open>
  Claim C1 as stated fails: alice registers from 10.0.0.1:9000 at time 0 and again from
  10.0.0.2:9001 at time 10. With either store the record still has the first address;
  with the in-memory store \<^verbatim>\<open>last_seen\<close> is still 0; and the record returned by the
  second call, with the Redis store, is the one read before the refresh
  (\<^verbatim>\<open>last_seen\<close> 0, while the stored record has 10).
\<close>

theorem reregister_keeps_first_address:
  "get_peer_info 10
     (serve_all empty_redis
        [Register 0 (body ''alice'' ''10.0.0.1'' 9000),
         Register 10 (body ''alice'' ''10.0.0.2'' 9001)]) ''alice'' =
     Some \<lparr>username = ''alice'', ip_address = ''10.0.0.1'', port = 9000, status = ''online'',
           last_seen = 10, registered_at = 0\<rparr>
   \<and> get_peer_info 10
     (serve_all empty_memory
        [Register 0 (body ''alice'' ''10.0.0.1'' 9000),
         Register 10 (body ''alice'' ''10.0.0.2'' 9001)]) ''alice'' =
     Some \<lparr>username = ''alice'', ip_address = ''10.0.0.1'', port = 9000, status = ''online'',
           last_seen = 0, registered_at = 0\<rparr>
   \<and> snd (register 10 (serve_all empty_redis [Register 0 (body ''alice'' ''10.0.0.1'' 9000)])
            (body ''alice'' ''10.0.0.2'' 9001)) =
     (Peer_message ''Peer updated successfully''
        \<lparr>username = ''alice'', ip_address = ''10.0.0.1'', port = 9000, status = ''online'',
           last_seen = 0, registered_at = 0\<rparr>, 200)"
  by (simp add: server_defs)

subsection \<open>Heartbeat\<close>

text \<open>
  Claim C2 at its failing input: alice is registered at time 0 and sends a heartbeat at
  time 60. With the in-memory store the request answers 200 and leaves the server as it
  was, so the record still has \<^verbatim>\<open>last_seen\<close> 0; with the Redis store the record has
  \<^verbatim>\<open>last_seen\<close> 60.
\<close>

theorem heartbeat_in_memory_no_refresh:
  "heartbeat 60 (serve_all empty_memory [Register 0 (body ''alice'' ''10.0.0.1'' 9000)])
     (username_only ''alice'') =
     (serve_all empty_memory [Register 0 (body ''alice'' ''10.0.0.1'' 9000)],
      Message ''Heartbeat received'', 200)
   \<and> get_peer_info 60
       (fst (heartbeat 60 (serve_all empty_memory [Register 0 (body ''alice'' ''10.0.0.1'' 9000)])
          (username_only ''alice''))) ''alice'' =
     Some \<lparr>username = ''alice'', ip_address = ''10.0.0.1'', port = 9000, status = ''online'',
           last_seen = 0, registered_at = 0\<rparr>
   \<and> get_peer_info 60
       (fst (heartbeat 60 (serve_all empty_redis [Register 0 (body ''alice'' ''10.0.0.1'' 9000)])
          (username_only ''alice''))) ''alice'' =
     Some \<lparr>username = ''alice'', ip_address = ''10.0.0.1'', port = 9000, status = ''online'',
           last_seen = 60, registered_at = 0\<rparr>"
  by (simp add: server_defs)

subsection \<open>The two stores\<close>

text \<open>
  Claim C3 at its failing input: alice registers at time 0 and unregisters at time 10.
  At time 20 \<^verbatim>\<open>/peers\<close> lists nobody with the Redis store and lists alice, online, with
  the in-memory store.
\<close>

theorem stores_differ_after_unregister:
  "listed (get_peers 20
     (serve_all empty_redis
        [Register 0 (body ''alice'' ''10.0.0.1'' 9000), Unregister 10 (username_only ''alice'')])) = []
   \<and> listed (get_peers 20
     (serve_all empty_memory
        [Register 0 (body ''alice'' ''10.0.0.1'' 9000), Unregister 10 (username_only ''alice'')])) =
     [\<lparr>username = ''alice'', ip_address = ''10.0.0.1'', port = 9000, status = ''online'',
        last_seen = 0, registered_at = 0\<rparr>]"
  by (simp add: server_defs)

subsection \<open>Expiry\<close>

lemma fold_delete_set: "set (fold AList.delete ks al) = {kv \<in> set al. fst kv \<notin> set ks}"
  by (induction ks arbitrary: al) (auto simp: AList.delete_eq)

lemma cleanup_fresh:
  "p \<in> set (get_all_peers t (cleanup_old_peers now (In_memory peers))) \<Longrightarrow>
     now - last_seen p \<le> 1800"
  by (force simp: get_all_peers_def cleanup_old_peers_def Let_def fold_delete_set)

lemma redis_deadlines_update_peer_status:
  "redis_deadlines srv \<Longrightarrow> redis_deadlines (update_peer_status now srv u st)"
  by (cases srv)
    (auto simp: redis_deadlines_def update_peer_status_def Let_def hset_field_def sadd_def
      srem_def map_of_map_entry split: option.splits if_splits)

lemma redis_deadlines_register_peer:
  "redis_deadlines srv \<Longrightarrow> redis_deadlines (fst (register_peer now srv u ip p))"
  by (cases srv)
    (auto simp: redis_deadlines_def register_peer_def Let_def hset_mapping_def expire_def
      exists_key_def hgetall_def sadd_def map_of_map_entry update_conv'
      split: option.splits if_splits)

lemma redis_deadlines_serve: "redis_deadlines srv \<Longrightarrow> redis_deadlines (serve srv req)"
proof (cases req)
  case (Register now j)
  assume "redis_deadlines srv"
  then show ?thesis
    using Register redis_deadlines_update_peer_status [of srv] redis_deadlines_register_peer [of srv]
    by (auto simp: register_def split: get_json.splits option.splits prod.splits)
       (metis fst_conv)
next
  case (Heartbeat now j)
  assume "redis_deadlines srv"
  then show ?thesis using Heartbeat redis_deadlines_update_peer_status [of srv]
    by (auto simp: heartbeat_def split: get_json.splits option.splits)
next
  case (Unregister now j)
  assume "redis_deadlines srv"
  then show ?thesis using Unregister redis_deadlines_update_peer_status [of srv]
    by (auto simp: unregister_def split: get_json.splits option.splits)
next
  case (Cleanup now)
  assume "redis_deadlines srv"
  then show ?thesis using Cleanup
    by (cases srv) (simp_all add: cleanup_old_peers_def redis_deadlines_def)
qed

lemma redis_deadlines_serve_all:
  "redis_deadlines srv \<Longrightarrow> redis_deadlines (serve_all srv reqs)"
  unfolding serve_all_def
  by (induction reqs arbitrary: srv) (simp_all add: redis_deadlines_serve)

lemma redis_deadlines_empty: "redis_deadlines empty_redis"
  by (simp add: redis_deadlines_def empty_redis_def)

lemma map_filter_mem: "y \<in> set (List.map_filter f xs) \<Longrightarrow> \<exists>x \<in> set xs. f x = Some y"
  by (auto simp: List.map_filter_def)

lemma redis_listed_within:
  assumes "redis_deadlines srv" and "p \<in> set (get_all_peers t srv)"
  shows "t \<le> registered_at p + 3600"
proof (cases srv)
  case (Redis_client r)
  with assms(2) obtain u where "hgetall t r (peer_key u) = Some p"
    by (auto simp: get_all_peers_def dest: map_filter_mem)
  from hgetall_Some [OF this] assms(1) Redis_client show ?thesis
    by (auto simp: redis_deadlines_def)
next
  case (In_memory peers)
  with assms(1) show ?thesis by (simp add: redis_deadlines_def)
qed

lemma listed_get_peers:
  "listed (get_peers t srv) = filter (\<lambda>peer. status peer = ''online'') (get_all_peers t srv)"
  by (simp add: listed_def get_peers_def Let_def)

text \<open>
  Claim C4 as stated fails. Alice registers at time 0 and never sends a heartbeat; the
  sweep runs every 300 seconds. At time 1801 her \<^verbatim>\<open>last_seen\<close> is more than 1800 seconds
  old, and \<^verbatim>\<open>/peers\<close> lists her as online with either store: the sweep at 1800 finds her
  exactly 1800 seconds old, which is not more than 30 minutes, and the Redis key lives
  for 3600 seconds.
\<close>

theorem stale_record_still_listed:
  "listed (get_peers 1801
     (serve_all empty_memory
        [Register 0 (body ''alice'' ''10.0.0.1'' 9000), Cleanup 300, Cleanup 600, Cleanup 900,
         Cleanup 1200, Cleanup 1500, Cleanup 1800])) =
     [\<lparr>username = ''alice'', ip_address = ''10.0.0.1'', port = 9000, status = ''online'',
        last_seen = 0, registered_at = 0\<rparr>]
   \<and> listed (get_peers 1801
     (serve_all empty_redis [Register 0 (body ''alice'' ''10.0.0.1'' 9000)])) =
     [\<lparr>username = ''alice'', ip_address = ''10.0.0.1'', port = 9000, status = ''online'',
        last_seen = 0, registered_at = 0\<rparr>]
   \<and> (1801::int) - 0 > 1800"
  by (simp add: server_defs)

text \<open>
  Claim C4, as the code has it. \<^verbatim>\<open>/peers\<close> lists the stored records whose stored status
  is \<^verbatim>\<open>online\<close>; it does not compare \<^verbatim>\<open>last_seen\<close> with the clock. With the in-memory
  store, every record listed after a sweep at time \<open>now\<close> (and before any other request)
  has \<^verbatim>\<open>last_seen\<close> at most 1800 seconds before \<open>now\<close>. With the Redis store, after any
  requests, a record listed at time \<open>t\<close> was registered at most 3600 seconds before \<open>t\<close>.
\<close>

theorem expiry_by_sweep_and_key_deadline:
  "listed (get_peers t srv) = filter (\<lambda>peer. status peer = ''online'') (get_all_peers t srv)
   \<and> (\<forall>p \<in> set (listed (get_peers t (cleanup_old_peers now (In_memory peers)))).
         now - last_seen p \<le> 1800)
   \<and> (\<forall>p \<in> set (listed (get_peers t (serve_all empty_redis reqs))).
         t \<le> registered_at p + 3600)"
  using cleanup_fresh [of _ t now peers]
    redis_listed_within [OF redis_deadlines_serve_all [OF redis_deadlines_empty], of _ t reqs]
  by (auto simp: listed_get_peers)

text \<open>
  The theorem of claim C4 at a sweep at time 2000 over alice (last seen at 0) and bob
  (last seen at 1000), which keeps bob only, and at the Redis store in which bob
  registered at time 1000.
\<close>

theorem expiry_by_sweep_and_key_deadline_witness:
  "listed (get_peers 2000
      (cleanup_old_peers 2000
         (In_memory
            [(''alice'', \<lparr>username = ''alice'', ip_address = ''10.0.0.1'', port = 9000,
                status = ''online'', last_seen = 0, registered_at = 0\<rparr>),
             (''bob'', \<lparr>username = ''bob'', ip_address = ''10.0.0.2'', port = 9001,
                status = ''online'', last_seen = 1000, registered_at = 1000\<rparr>)]))) =
     [\<lparr>username = ''bob'', ip_address = ''10.0.0.2'', port = 9001, status = ''online'',
        last_seen = 1000, registered_at = 1000\<rparr>]
   \<and> 2000 - last_seen \<lparr>username = ''bob'', ip_address = ''10.0.0.2'', port = 9001,
        status = ''online'', last_seen = 1000, registered_at = 1000\<rparr> \<le> 1800
   \<and> listed (get_peers 2000 (serve_all empty_redis [Register 1000 (body ''bob'' ''10.0.0.2'' 9001)])) =
     [\<lparr>username = ''bob'', ip_address = ''10.0.0.2'', port = 9001, status = ''online'',
        last_seen = 1000, registered_at = 1000\<rparr>]
   \<and> 2000 \<le> registered_at \<lparr>username = ''bob'', ip_address = ''10.0.0.2'', port = 9001,
        status = ''online'', last_seen = 1000, registered_at = 1000\<rparr> + 3600"
proof -
  let ?bob = "\<lparr>username = ''bob'', ip_address = ''10.0.0.2'', port = 9001, status = ''online'',
        last_seen = 1000, registered_at = 1000\<rparr>"
  let ?mem = "In_memory
            [(''alice'', \<lparr>username = ''alice'', ip_address = ''10.0.0.1'', port = 9000,
                status = ''online'', last_seen = 0, registered_at = 0\<rparr>),
             (''bob'', ?bob)]"
  have m: "listed (get_peers 2000 (cleanup_old_peers 2000 ?mem)) = [?bob]"
    by (simp add: server_defs)
  have r: "listed (get_peers 2000
      (serve_all empty_redis [Register 1000 (body ''bob'' ''10.0.0.2'' 9001)])) = [?bob]"
    by (simp add: server_defs)
  note t = expiry_by_sweep_and_key_deadline [where t = 2000 and now = 2000
      and peers = "[(''alice'', \<lparr>username = ''alice'', ip_address = ''10.0.0.1'', port = 9000,
                status = ''online'', last_seen = 0, registered_at = 0\<rparr>), (''bob'', ?bob)]"
      and reqs = "[Register 1000 (body ''bob'' ''10.0.0.2'' 9001)]"]
  from t have a: "\<forall>p \<in> set (listed (get_peers 2000 (cleanup_old_peers 2000 ?mem))).
      2000 - last_seen p \<le> 1800" by blast
  from t have b: "\<forall>p \<in> set (listed (get_peers 2000
      (serve_all empty_redis [Register 1000 (body ''bob'' ''10.0.0.2'' 9001)]))).
      2000 \<le> registered_at p + 3600" by blast
  from a m have a': "2000 - last_seen ?bob \<le> 1800" by simp
  from b r have b': "2000 \<le> registered_at ?bob + 3600" by simp
  from m r a' b' show ?thesis by blast
qed

subsection \<open>Missing fields\<close>

text \<open>A JSON object that lacks a required field is answered with status 400.\<close>

lemma missing_field_is_400:
  "f_username data = None \<or> f_ip_address data = None \<or> f_port data = None \<Longrightarrow>
     snd (snd (register now srv (Returns_dict data))) = 400"
  "f_username data = None \<Longrightarrow> snd (snd (heartbeat now srv (Returns_dict data))) = 400"
  "f_username data = None \<Longrightarrow> snd (snd (unregister now srv (Returns_dict data))) = 400"
  by (auto simp: register_def heartbeat_def unregister_def split: option.splits)

text \<open>
  Claim C8 at its failing input: a request with no JSON body. Whether
  \<^verbatim>\<open>request.get_json()\<close> raises or returns \<^verbatim>\<open>None\<close>, the exception ends in the
  \<^verbatim>\<open>except Exception\<close> handler of the endpoint, and the status is 500.
\<close>

theorem no_json_body_is_500:
  "snd (register 0 empty_memory Raises) = (Failed ''Registration failed'', 500)
   \<and> snd (register 0 empty_memory Returns_None) = (Failed ''Registration failed'', 500)
   \<and> snd (heartbeat 0 empty_memory Raises) = (Failed ''Heartbeat failed'', 500)
   \<and> snd (heartbeat 0 empty_memory Returns_None) = (Failed ''Heartbeat failed'', 500)
   \<and> snd (unregister 0 empty_memory Raises) = (Failed ''Unregistration failed'', 500)
   \<and> snd (unregister 0 empty_memory Returns_None) = (Failed ''Unregistration failed'', 500)"
  by (simp add: register_def heartbeat_def unregister_def)

subsection \<open>The time of registration\<close>

text \<open>
  Claim C9. When a record exists for a username, a request to \<^verbatim>\<open>/register\<close>,
  \<^verbatim>\<open>/heartbeat\<close> or \<^verbatim>\<open>/unregister\<close>, with any body and so also one that names this
  username, leaves the record in place with the same \<^verbatim>\<open>registered_at\<close>.
\<close>

theorem registered_at_unchanged:
  assumes "get_peer_info now srv u = Some r"
  shows "(\<exists>r'. get_peer_info now (fst (register now srv req)) u = Some r'
                \<and> registered_at r' = registered_at r)
       \<and> (\<exists>r'. get_peer_info now (fst (heartbeat now srv req)) u = Some r'
                \<and> registered_at r' = registered_at r)
       \<and> (\<exists>r'. get_peer_info now (fst (unregister now srv req)) u = Some r'
                \<and> registered_at r' = registered_at r)"
  using register_keeps [OF assms order_refl, of req] heartbeat_keeps [OF assms order_refl, of req]
    unregister_keeps [OF assms order_refl, of req]
  by blast

text \<open>
  The theorem of claim C9 at the record of alice, registered at time 0 in the Redis
  store, and requests at time 10 that name her.
\<close>

theorem registered_at_unchanged_witness:
  "get_peer_info 10 (serve_all empty_redis [Register 0 (body ''alice'' ''10.0.0.1'' 9000)]) ''alice'' =
     Some \<lparr>username = ''alice'', ip_address = ''10.0.0.1'', port = 9000, status = ''online'',
           last_seen = 0, registered_at = 0\<rparr>
   \<and> (\<exists>r'. get_peer_info 10
         (fst (register 10 (serve_all empty_redis [Register 0 (body ''alice'' ''10.0.0.1'' 9000)])
            (body ''alice'' ''10.0.0.2'' 9001))) ''alice'' = Some r' \<and> registered_at r' = 0)
   \<and> (\<exists>r'. get_peer_info 10
         (fst (heartbeat 10 (serve_all empty_redis [Register 0 (body ''alice'' ''10.0.0.1'' 9000)])
            (body ''alice'' ''10.0.0.2'' 9001))) ''alice'' = Some r' \<and> registered_at r' = 0)
   \<and> (\<exists>r'. get_peer_info 10
         (fst (unregister 10 (serve_all empty_redis [Register 0 (body ''alice'' ''10.0.0.1'' 9000)])
            (body ''alice'' ''10.0.0.2'' 9001))) ''alice'' = Some r' \<and> registered_at r' = 0)"
proof -
  have h: "get_peer_info 10 (serve_all empty_redis [Register 0 (body ''alice'' ''10.0.0.1'' 9000)])
      ''alice'' =
     Some \<lparr>username = ''alice'', ip_address = ''10.0.0.1'', port = 9000, status = ''online'',
           last_seen = 0, registered_at = 0\<rparr>"
    by (simp add: server_defs)
  from registered_at_unchanged [OF h, where req = "body ''alice'' ''10.0.0.2'' 9001"] h
  show ?thesis by simp
qed

subsection \<open>The response of /peers\<close>

text \<open>
  Claim C10. \<^verbatim>\<open>/peers\<close> answers 200 with a list of peers and a count; the count is the
  length of the list, and every peer of the list has status \<^verbatim>\<open>online\<close>.
\<close>

theorem get_peers_count_online:
  "\<exists>ps. get_peers now srv = (Peers (length ps) ps, 200) \<and> (\<forall>p \<in> set ps. status p = ''online'')"
  by (simp add: get_peers_def Let_def)

text \<open>The theorem of claim C10 at the in-memory store with alice registered.\<close>

theorem get_peers_count_online_witness:
  "\<exists>ps. get_peers 5 (serve_all empty_memory [Register 0 (body ''alice'' ''10.0.0.1'' 9000)]) =
           (Peers (length ps) ps, 200)
       \<and> ps = [\<lparr>username = ''alice'', ip_address = ''10.0.0.1'', port = 9000, status = ''online'',
                 last_seen = 0, registered_at = 0\<rparr>]
       \<and> (\<forall>p \<in> set ps. status p = ''online'')"
proof -
  from get_peers_count_online [of 5 "serve_all empty_memory [Register 0 (body ''alice'' ''10.0.0.1'' 9000)]"]
  obtain ps where ps: "get_peers 5 (serve_all empty_memory [Register 0 (body ''alice'' ''10.0.0.1'' 9000)]) =
           (Peers (length ps) ps, 200)" "\<forall>p \<in> set ps. status p = ''online''"
    by blast
  have "get_peers 5 (serve_all empty_memory [Register 0 (body ''alice'' ''10.0.0.1'' 9000)]) =
      (Peers 1 [\<lparr>username = ''alice'', ip_address = ''10.0.0.1'', port = 9000, status = ''online'',
                 last_seen = 0, registered_at = 0\<rparr>], 200)"
    by (simp add: server_defs)
  with ps(1) have "ps = [\<lparr>username = ''alice'', ip_address = ''10.0.0.1'', port = 9000,
      status = ''online'', last_seen = 0, registered_at = 0\<rparr>]"
    by simp
  with ps show ?thesis by blast
qed

section \<open>The peer: the connection table\<close>

lemmas peer_defs =
  Peer_def start_tcp_server_def handle_incoming_connection_def connect_to_peer_def
  connect_request_def handshake_def clean_up_def close_socket_def in_connections_def
  peer_unregister_def run_def session_count_def lower_def lower_char_def

subsection \<open>Counting the entries of a username\<close>






subsection \<open>The keys of the table stay distinct\<close>










subsection \<open>At most one session for a username\<close>



subsection \<open>The handshake\<close>



subsection \<open>The end of a session\<close>

lemma in_connections_clean_up: "\<not> in_connections u (clean_up u s p)"
  by (simp add: clean_up_def in_connections_def close_socket_def delete_conv')

lemma closed_clean_up: "closed (clean_up u s p) = closed p @ [s]"
  by (simp add: clean_up_def close_socket_def)

text \<open>The inbound flow, however it ends, removes the entry and closes the socket.\<close>

lemma receive_messages_cleans_up:
  "receive_messages u s reads p = (p', True) \<Longrightarrow>
     \<not> in_connections u p' \<and> closed p' = closed p @ [s]"
proof (induction u s reads p rule: receive_messages.induct)
  case (1 u s p)
  then show ?case
    by (auto simp: in_connections_clean_up closed_clean_up split: if_splits)
next
  case (2 u s data rest p)
  then show ?case
    by (auto simp: in_connections_clean_up closed_clean_up
        split: if_splits recv.splits wire.splits)
qed

text \<open>
  Claim C6 at its failing input. Alice has accepted a connection from bob on socket 1.
  When \<^verbatim>\<open>send\<close> raises on the message \<^verbatim>\<open>hi\<close>, or \<^verbatim>\<open>input()\<close> raises, the outbound flow
  ends and the peer is as before: bob is still in \<^verbatim>\<open>connections\<close> and socket 1 is not
  closed. The command \<^verbatim>\<open>/exit\<close> does remove bob and close the socket; the inbound flow,
  ending after it, calls \<^verbatim>\<open>close()\<close> on the socket a second time.
\<close>

theorem outbound_error_keeps_session:
  "fst (handle_incoming_connection (start_tcp_server (Peer ''alice'')) 1
          (Recv_json (Connect_request ''bob'' 0)) (Line ''y'') True) =
     \<lparr>my_username = ''alice'', connections = [(''bob'', 1)], is_running = True, closed = [],
        shown = []\<rparr>
   \<and> send_messages ''bob'' 1 [(Line ''hi'', 7, False)]
       \<lparr>my_username = ''alice'', connections = [(''bob'', 1)], is_running = True, closed = [],
          shown = []\<rparr> =
     (\<lparr>my_username = ''alice'', connections = [(''bob'', 1)], is_running = True, closed = [],
         shown = []\<rparr>, [], True)
   \<and> send_messages ''bob'' 1 [(Input_raises, 7, True)]
       \<lparr>my_username = ''alice'', connections = [(''bob'', 1)], is_running = True, closed = [],
          shown = []\<rparr> =
     (\<lparr>my_username = ''alice'', connections = [(''bob'', 1)], is_running = True, closed = [],
         shown = []\<rparr>, [], True)
   \<and> send_messages ''bob'' 1 [(Line ''/exit'', 7, True)]
       \<lparr>my_username = ''alice'', connections = [(''bob'', 1)], is_running = True, closed = [],
          shown = []\<rparr> =
     (\<lparr>my_username = ''alice'', connections = [], is_running = True, closed = [1],
         shown = []\<rparr>, [Disconnect ''alice'' 7], True)
   \<and> receive_messages ''bob'' 1 [Recv_error]
       \<lparr>my_username = ''alice'', connections = [], is_running = True, closed = [1],
          shown = []\<rparr> =
     (\<lparr>my_username = ''alice'', connections = [], is_running = True, closed = [1, 1],
         shown = []\<rparr>, True)"
  by (simp add: peer_defs)

end
